theory Spec2Isabelle
  imports Main "HOL-Library.Sublist"
begin

section \<open>The quickstart workflow\<close>

text \<open>
  The program is \<^verbatim>\<open>examples/quickstart/before.py\<close>, a script of three statements:
  \<^verbatim>\<open>
  load_dotenv()

  with OpenAI() as client:
      response = client.chat.completions.create(
          model="gpt-4o-mini",
          messages=[{"role": "user",
                     "content": "Write a haiku about artificial intelligence."}],
      )

  print(response)
  \<close>
  \<^verbatim>\<open>load_dotenv\<close> and \<^verbatim>\<open>OpenAI\<close> are imported from packages that are not part of
  the repository. Their operations are therefore parameters of the model (the record
  \<open>library\<close> below); the script itself, the \<^verbatim>\<open>with\<close> statement and \<^verbatim>\<open>print\<close> are
  modelled as Python defines them.
\<close>

subsection \<open>Values\<close>

text \<open>Exceptions. The first four are the classes the specification names;
  \<open>NameError\<close> is what Python raises when an unbound variable is read.\<close>

datatype error =
    AuthenticationError
  | ConnectionError
  | ValidationError
  | ServiceError
  | NameError
  | OtherError string

text \<open>\<^verbatim>\<open>os.environ\<close>.\<close>

type_synonym env = "string \<rightharpoonup> string"

text \<open>The keyword arguments of \<^verbatim>\<open>create\<close>: a model name and a list of messages, each
  a dictionary with the keys \<^verbatim>\<open>role\<close> and \<^verbatim>\<open>content\<close>.\<close>

record message =
  role :: string
  content :: string

record request =
  model :: string
  messages :: "message list"

text \<open>The one request the script writes out (lines 7 to 15).\<close>

definition request_payload :: request where
  "request_payload =
     \<lparr>model = ''gpt-4o-mini'',
      messages = [\<lparr>role = ''user'',
                   content = ''Write a haiku about artificial intelligence.''\<rparr>]\<rparr>"

subsection \<open>The imported operations\<close>

text \<open>
  Every call into the imported packages may raise, so each returns \<open>error + result\<close>.
  \<^item> \<open>load_dotenv\<close> maps \<^verbatim>\<open>os.environ\<close> to its new contents;
  \<^item> \<open>OpenAI\<close> is the constructor, which reads \<^verbatim>\<open>os.environ\<close>;
  \<^item> \<open>enter\<close> is \<^verbatim>\<open>__enter__\<close>, whose result \<^verbatim>\<open>as client\<close> binds;
  \<^item> \<open>exit\<close> is \<^verbatim>\<open>__exit__\<close>: it receives the exception in flight (or \<open>None\<close>) and
    returns whether that exception is to be suppressed;
  \<^item> \<open>create\<close> is \<^verbatim>\<open>client.chat.completions.create\<close>;
  \<^item> \<open>str\<close> is \<^verbatim>\<open>__str__\<close> of the response, which \<^verbatim>\<open>print\<close> calls.
  \<open>'c\<close> is the type of client objects and \<open>'r\<close> the type of responses.
\<close>

record ('c, 'r) library =
  load_dotenv :: "env \<Rightarrow> error + env"
  OpenAI :: "env \<Rightarrow> error + 'c"
  enter :: "'c \<Rightarrow> error + 'c"
  exit :: "'c \<Rightarrow> error option \<Rightarrow> error + bool"
  create :: "'c \<Rightarrow> request \<Rightarrow> error + 'r"
  str :: "'r \<Rightarrow> error + string"

subsection \<open>Program state and the log of calls\<close>

text \<open>The calls the script makes, and how each one ended.\<close>

datatype call = LoadDotenv | Construct | Enter | Request request | Exit | Print

datatype event = Ok call | Raise call error

fun call_of :: "event \<Rightarrow> call" where
  "call_of (Ok c) = c"
| "call_of (Raise c e) = c"

text \<open>
  The state of a run: \<^verbatim>\<open>os.environ\<close>, what has been written to standard output, the
  variable \<^verbatim>\<open>response\<close> (unbound at first), the exception in flight (\<open>exc\<close>, \<open>None\<close> when
  there is none) and the log of calls made so far. At the end of the script \<open>exc\<close> is the
  exception that reaches whoever invoked it.
\<close>

record 'r state =
  environ :: env
  stdout :: string
  response :: "'r option"
  exc :: "error option"
  trace :: "event list"

definition start :: "env \<Rightarrow> 'r state" where
  "start e = \<lparr>environ = e, stdout = [], response = None, exc = None, trace = []\<rparr>"

definition returned :: "call \<Rightarrow> 'r state \<Rightarrow> 'r state" where
  "returned c s = s\<lparr>trace := trace s @ [Ok c]\<rparr>"

definition raise :: "call \<Rightarrow> error \<Rightarrow> 'r state \<Rightarrow> 'r state" where
  "raise c e s = s\<lparr>exc := Some e, trace := trace s @ [Raise c e]\<rparr>"

text \<open>Statements run in sequence; an exception in flight skips what follows.\<close>

definition andthen :: "('r state \<Rightarrow> 'r state) \<Rightarrow> 'r state \<Rightarrow> 'r state" where
  "andthen stmt s = (if exc s = None then stmt s else s)"

definition newline :: string where
  "newline = [CHR 0x0A]"

subsection \<open>The statements of the script\<close>

text \<open>Line 4: \<^verbatim>\<open>load_dotenv()\<close>.\<close>

definition load_dotenv_stmt :: "('c, 'r) library \<Rightarrow> 'r state \<Rightarrow> 'r state" where
  "load_dotenv_stmt lib s =
     (case load_dotenv lib (environ s) of
        Inl e \<Rightarrow> raise LoadDotenv e s
      | Inr environ' \<Rightarrow> returned LoadDotenv (s\<lparr>environ := environ'\<rparr>))"

text \<open>Lines 7 to 15, the body of the \<^verbatim>\<open>with\<close> block: one call, whose result is
  assigned to \<^verbatim>\<open>response\<close>.\<close>

definition create_stmt :: "('c, 'r) library \<Rightarrow> 'c \<Rightarrow> 'r state \<Rightarrow> 'r state" where
  "create_stmt lib client s =
     (case create lib client request_payload of
        Inl e \<Rightarrow> raise (Request request_payload) e s
      | Inr r \<Rightarrow> returned (Request request_payload) (s\<lparr>response := Some r\<rparr>))"

text \<open>
  Leaving the \<^verbatim>\<open>with\<close> block: \<^verbatim>\<open>__exit__\<close> is called with the exception in flight. If
  it raises, its exception replaces the one in flight; if it returns a true value, the
  exception in flight is suppressed; otherwise the exception continues.
\<close>

definition exit_stmt :: "('c, 'r) library \<Rightarrow> 'c \<Rightarrow> 'r state \<Rightarrow> 'r state" where
  "exit_stmt lib mgr s =
     (case exit lib mgr (exc s) of
        Inl e \<Rightarrow> raise Exit e s
      | Inr suppress \<Rightarrow> returned Exit (if suppress then s\<lparr>exc := None\<rparr> else s))"

text \<open>
  Line 6, \<^verbatim>\<open>with OpenAI() as client:\<close>. The constructor runs, then \<^verbatim>\<open>__enter__\<close>; if
  either raises, the block is not entered and \<^verbatim>\<open>__exit__\<close> is not called. Once
  \<^verbatim>\<open>__enter__\<close> has returned, \<^verbatim>\<open>__exit__\<close> runs when the body ends, however it ends.
\<close>

definition with_stmt :: "('c, 'r) library \<Rightarrow> 'r state \<Rightarrow> 'r state" where
  "with_stmt lib s =
     (case OpenAI lib (environ s) of
        Inl e \<Rightarrow> raise Construct e s
      | Inr mgr \<Rightarrow>
          (case enter lib mgr of
             Inl e \<Rightarrow> raise Enter e (returned Construct s)
           | Inr client \<Rightarrow>
               exit_stmt lib mgr
                 (create_stmt lib client (returned Enter (returned Construct s)))))"

text \<open>Line 17, \<^verbatim>\<open>print(response)\<close>: reads the variable, converts the value with
  \<^verbatim>\<open>str\<close> and writes the text and a newline to standard output.\<close>

definition print_stmt :: "('c, 'r) library \<Rightarrow> 'r state \<Rightarrow> 'r state" where
  "print_stmt lib s =
     (case response s of
        None \<Rightarrow> raise Print NameError s
      | Some r \<Rightarrow>
          (case str lib r of
             Inl e \<Rightarrow> raise Print e s
           | Inr text \<Rightarrow> returned Print (s\<lparr>stdout := stdout s @ text @ newline\<rparr>)))"

text \<open>The script.\<close>

definition main :: "('c, 'r) library \<Rightarrow> env \<Rightarrow> 'r state" where
  "main lib e =
     andthen (print_stmt lib) (andthen (with_stmt lib) (load_dotenv_stmt lib (start e)))"

subsection \<open>Observations of a run\<close>

definition calls :: "'r state \<Rightarrow> call list" where
  "calls s = map call_of (trace s)"

fun requests_of :: "call list \<Rightarrow> request list" where
  "requests_of [] = []"
| "requests_of (Request r # cs) = r # requests_of cs"
| "requests_of (c # cs) = requests_of cs"

text \<open>
  How a call into the imported packages shows in the log and in the state: \<open>event_of\<close>
  is the event a call with result \<open>res\<close> leaves in the log, and \<open>in_flight\<close> is the
  exception in flight after it.
\<close>

definition event_of :: "call \<Rightarrow> error + 'a \<Rightarrow> event" where
  "event_of c res = (case res of Inl x \<Rightarrow> Raise c x | Inr v \<Rightarrow> Ok c)"

definition in_flight :: "error + 'a \<Rightarrow> error option" where
  "in_flight res = (case res of Inl x \<Rightarrow> Some x | Inr v \<Rightarrow> None)"

fun is_request :: "call \<Rightarrow> bool" where
  "is_request (Request r) = True"
| "is_request c = False"

text \<open>The events of the log that are calls of \<^verbatim>\<open>__exit__\<close>, and those that are
  requests.\<close>

definition exit_events :: "'r state \<Rightarrow> event list" where
  "exit_events s = filter (\<lambda>ev. call_of ev = Exit) (trace s)"

definition request_events :: "'r state \<Rightarrow> event list" where
  "request_events s = filter (\<lambda>ev. is_request (call_of ev)) (trace s)"

text \<open>The order of the calls in a run in which nothing raises.\<close>

definition workflow_order :: "call list" where
  "workflow_order = [LoadDotenv, Construct, Enter, Request request_payload, Exit, Print]"

subsection \<open>A test double for the imported packages\<close>

text \<open>
  A library whose constructor returns \<open>built\<close> and whose request returns \<open>reply\<close>. Clients
  and responses are strings; \<^verbatim>\<open>__exit__\<close> returns a false value; a response prints as
  itself.
\<close>

definition mock_library :: "error + string \<Rightarrow> error + string \<Rightarrow> (string, string) library" where
  "mock_library built reply =
     \<lparr>load_dotenv = Inr,
      OpenAI = (\<lambda>e. built),
      enter = Inr,
      exit = (\<lambda>mgr e. Inr False),
      create = (\<lambda>client req. reply),
      str = Inr\<rparr>"

text \<open>
  Two variants of it: a service that accepts the request only when it is exactly the
  payload of the script, and a client whose \<^verbatim>\<open>__exit__\<close> raises.
\<close>

definition strict_library :: "string \<Rightarrow> (string, string) library" where
  "strict_library answer =
     (mock_library (Inr ''client'') (Inr answer))
       \<lparr>create := (\<lambda>client req.
          if model req = ''gpt-4o-mini''
             \<and> messages req = [\<lparr>role = ''user'',
                   content = ''Write a haiku about artificial intelligence.''\<rparr>]
          then Inr answer else Inl ValidationError)\<rparr>"

definition failing_exit_library :: "error + string \<Rightarrow> (string, string) library" where
  "failing_exit_library reply =
     (mock_library (Inr ''client'') reply)\<lparr>exit := (\<lambda>mgr x. Inl ConnectionError)\<rparr>"

definition haiku :: string where
  "haiku = ''Silent circuits hum / Thoughts emerge from data streams / Mind without a soul''"

subsection \<open>Operations of the imported packages, as the specification describes them\<close>

text \<open>
  Modelled from the spec: the constructor of the service client, which belongs to the
  imported client package and is not in the repository. The specification says: "if the
  authentication environment variable is unset, constructing the Service Client must fail
  with \<^verbatim>\<open>AuthenticationError\<close> before any network call is attempted". The name of the
  variable is the parameter \<open>key\<close>; a client is represented by the credential it holds.
\<close>

definition spec_OpenAI :: "string \<Rightarrow> env \<Rightarrow> error + string" where
  "spec_OpenAI key e =
     (case e key of
        None \<Rightarrow> Inl AuthenticationError
      | Some credential \<Rightarrow> Inr credential)"

text \<open>
  Modelled from the spec: the credential loader, which belongs to the imported
  configuration package and is not in the repository. The specification says: "merge
  configuration from a local environment-configuration source into the process's
  environment variable table (no-op if no such source exists)", and of the file: "its
  absence is not an error". \<open>file\<close> is \<open>None\<close> when there is no configuration file and
  otherwise its \<^verbatim>\<open>KEY=VALUE\<close> lines; how entries are merged is the parameter \<open>merge\<close>.
\<close>

definition spec_load_dotenv ::
  "(env \<Rightarrow> (string \<times> string) list \<Rightarrow> env) \<Rightarrow> (string \<times> string) list option \<Rightarrow> env \<Rightarrow> error + env" where
  "spec_load_dotenv merge file e =
     (case file of
        None \<Rightarrow> Inr e
      | Some entries \<Rightarrow> Inr (merge e entries))"

section \<open>Properties\<close>

lemmas script_defs =
  main_def andthen_def load_dotenv_stmt_def with_stmt_def create_stmt_def exit_stmt_def
  print_stmt_def returned_def raise_def start_def calls_def

text \<open>
  C1. On every path out of the workflow on which the request step was reached, whether
  the request returns a response or raises an error of any class, the script calls
  \<^verbatim>\<open>__exit__\<close> of the client, which releases its resources, exactly once: after the
  request, on the object the constructor returned, with the exception the request raised
  (or none). The one event of that call in the log is the outcome of the client's own
  \<^verbatim>\<open>__exit__\<close>: a release that completed when it returns, and a failed one, not counted
  as completed, when it raises.
\<close>

theorem client_released_exactly_once:
  assumes "load_dotenv lib e = Inr e1"
    and "OpenAI lib e1 = Inr mgr"
    and "enter lib mgr = Inr client"
  shows "exit_events (main lib e)
      = [event_of Exit (exit lib mgr (in_flight (create lib client request_payload)))]
    \<and> count_list (calls (main lib e)) Exit = 1
    \<and> prefix [Ok LoadDotenv, Ok Construct, Ok Enter,
               event_of (Request request_payload) (create lib client request_payload),
               event_of Exit (exit lib mgr (in_flight (create lib client request_payload)))]
         (trace (main lib e))
    \<and> (\<forall>b. exit lib mgr (in_flight (create lib client request_payload)) = Inr b
          \<longrightarrow> exit_events (main lib e) = [Ok Exit])"
proof -
  show ?thesis
  proof (cases "create lib client request_payload")
    case (Inl x)
    then show ?thesis
      using assms
      by (cases "exit lib mgr (Some x)")
         (simp_all add: script_defs exit_events_def event_of_def in_flight_def)
  next
    case (Inr r)
    then show ?thesis
      using assms
      by (cases "exit lib mgr None"; cases "str lib r")
         (simp_all add: script_defs exit_events_def event_of_def in_flight_def)
  qed
qed

theorem client_released_exactly_once_witness:
  "load_dotenv (mock_library (Inr ''client'') (Inr haiku)) Map.empty = Inr Map.empty
   \<and> OpenAI (mock_library (Inr ''client'') (Inr haiku)) Map.empty = Inr ''client''
   \<and> enter (mock_library (Inr ''client'') (Inr haiku)) ''client'' = Inr ''client''
   \<and> exit_events (main (mock_library (Inr ''client'') (Inr haiku)) Map.empty) = [Ok Exit]
   \<and> exit_events (main (mock_library (Inr ''client'') (Inl ServiceError)) Map.empty) = [Ok Exit]
   \<and> count_list (calls (main (mock_library (Inr ''client'') (Inr haiku)) Map.empty)) Exit = 1
   \<and> count_list (calls (main (mock_library (Inr ''client'') (Inl ServiceError)) Map.empty)) Exit = 1
   \<and> exit_events (main (failing_exit_library (Inl ValidationError)) Map.empty)
       = [Raise Exit ConnectionError]"
proof -
  have ok: "load_dotenv (mock_library (Inr ''client'') r) Map.empty = Inr Map.empty"
    "OpenAI (mock_library (Inr ''client'') r) Map.empty = Inr ''client''"
    "enter (mock_library (Inr ''client'') r) ''client'' = Inr ''client''" for r
    by (simp_all add: mock_library_def)
  have bad: "load_dotenv (failing_exit_library r) Map.empty = Inr Map.empty"
    "OpenAI (failing_exit_library r) Map.empty = Inr ''client''"
    "enter (failing_exit_library r) ''client'' = Inr ''client''" for r
    by (simp_all add: failing_exit_library_def mock_library_def)
  have x1: "exit (mock_library (Inr ''client'') r) mgr x = Inr False" for r mgr x
    by (simp add: mock_library_def)
  have x2: "exit (failing_exit_library r) mgr x = Inl ConnectionError" for r mgr x
    by (simp add: failing_exit_library_def mock_library_def)
  show ?thesis
    using ok client_released_exactly_once [OF ok, of "Inr haiku"]
      client_released_exactly_once [OF ok, of "Inl ServiceError"]
      client_released_exactly_once [OF bad, of "Inl ValidationError"]
    by (simp add: x1 x2 event_of_def)
qed

text \<open>
  C2. Spec-modelled constructor. If the authentication variable is unset once the loader
  has run, the constructor fails with \<open>AuthenticationError\<close>, the workflow aborts with
  that error, the run consists of the loader and the failed construction only (so no
  request is sent), and nothing is written to standard output.
\<close>

theorem missing_credential_aborts:
  assumes "OpenAI lib = spec_OpenAI key"
    and "load_dotenv lib e = Inr e1"
    and "e1 key = None"
  shows "exc (main lib e) = Some AuthenticationError
    \<and> trace (main lib e) = [Ok LoadDotenv, Raise Construct AuthenticationError]
    \<and> requests_of (calls (main lib e)) = []
    \<and> stdout (main lib e) = []"
  using assms by (simp add: script_defs spec_OpenAI_def)

theorem missing_credential_aborts_witness:
  "OpenAI ((mock_library (Inr ''client'') (Inr haiku))\<lparr>OpenAI := spec_OpenAI ''OPENAI_API_KEY''\<rparr>)
     = spec_OpenAI ''OPENAI_API_KEY''
   \<and> load_dotenv ((mock_library (Inr ''client'') (Inr haiku))\<lparr>OpenAI := spec_OpenAI ''OPENAI_API_KEY''\<rparr>)
       Map.empty = Inr Map.empty
   \<and> (Map.empty :: env) ''OPENAI_API_KEY'' = None
   \<and> exc (main ((mock_library (Inr ''client'') (Inr haiku))\<lparr>OpenAI := spec_OpenAI ''OPENAI_API_KEY''\<rparr>)
        Map.empty) = Some AuthenticationError
   \<and> stdout (main ((mock_library (Inr ''client'') (Inr haiku))\<lparr>OpenAI := spec_OpenAI ''OPENAI_API_KEY''\<rparr>)
        Map.empty) = []"
proof -
  let ?lib = "(mock_library (Inr ''client'') (Inr haiku))\<lparr>OpenAI := spec_OpenAI ''OPENAI_API_KEY''\<rparr>"
  have h1: "OpenAI ?lib = spec_OpenAI ''OPENAI_API_KEY''" by simp
  have h2: "load_dotenv ?lib Map.empty = Inr Map.empty" by (simp add: mock_library_def)
  have h3: "(Map.empty :: env) ''OPENAI_API_KEY'' = None" by simp
  show ?thesis
    using h1 h2 missing_credential_aborts [OF h1 h2 h3] by simp
qed

text \<open>In every run the calls made are an initial part of \<open>workflow_order\<close>.\<close>

lemma calls_prefix: "prefix (calls (main lib e)) workflow_order"
  by (auto simp: script_defs workflow_order_def split: sum.splits option.splits)

text \<open>
  C3, as amended. The steps run in one fixed linear order, which is: loader, construction
  of the client (the constructor and \<^verbatim>\<open>__enter__\<close>), the request, the release of the
  client, and last the rendering. The calls of every run are an initial part of that
  order, and a run that ends without an exception makes all of them.
\<close>

theorem steps_in_linear_order:
  "prefix (calls (main lib e)) workflow_order
   \<and> (exc (main lib e) = None \<longrightarrow> calls (main lib e) = workflow_order)
   \<and> workflow_order = [LoadDotenv, Construct, Enter, Request request_payload, Exit, Print]"
  using calls_prefix [of lib e]
  by (auto simp: script_defs workflow_order_def split: sum.splits option.splits)

theorem steps_in_linear_order_witness:
  "exc (main (mock_library (Inr ''client'') (Inr haiku)) Map.empty) = None
   \<and> calls (main (mock_library (Inr ''client'') (Inr haiku)) Map.empty)
       = [LoadDotenv, Construct, Enter, Request request_payload, Exit, Print]"
proof -
  have h: "exc (main (mock_library (Inr ''client'') (Inr haiku)) Map.empty) = None"
    by (simp add: script_defs mock_library_def)
  show ?thesis
    using h steps_in_linear_order [of "mock_library (Inr ''client'') (Inr haiku)" Map.empty]
    by simp
qed

text \<open>
  C3 as stated puts the rendering before the release. In a run in which every call
  succeeds, \<^verbatim>\<open>__exit__\<close> is called before \<^verbatim>\<open>print\<close>: the \<^verbatim>\<open>print\<close> statement stands
  after the \<^verbatim>\<open>with\<close> block, not inside it.
\<close>

theorem render_before_release_counterexample:
  "calls (main (mock_library (Inr ''client'') (Inr haiku)) Map.empty)
     = [LoadDotenv, Construct, Enter, Request request_payload, Exit, Print]
   \<and> calls (main (mock_library (Inr ''client'') (Inr haiku)) Map.empty)
     \<noteq> [LoadDotenv, Construct, Enter, Request request_payload, Print, Exit]"
  by (simp add: script_defs mock_library_def)

text \<open>
  C6, as amended. In every run in which the client has been constructed and entered,
  exactly one request is issued, and what the client's \<^verbatim>\<open>create\<close> receives is the
  payload with model \<^verbatim>\<open>gpt-4o-mini\<close> and the single user message asking for a haiku:
  the one request event of the log is the outcome of \<^verbatim>\<open>create\<close> on that payload, and
  the variable \<^verbatim>\<open>response\<close> holds what \<^verbatim>\<open>create\<close> returned for it (it stays unbound
  when \<^verbatim>\<open>create\<close> raises).
\<close>

theorem exactly_one_request:
  assumes "load_dotenv lib e = Inr e1"
    and "OpenAI lib e1 = Inr mgr"
    and "enter lib mgr = Inr client"
  shows "requests_of (calls (main lib e))
      = [\<lparr>model = ''gpt-4o-mini'',
          messages = [\<lparr>role = ''user'',
                       content = ''Write a haiku about artificial intelligence.''\<rparr>]\<rparr>]
    \<and> request_events (main lib e)
      = [event_of
           (Request \<lparr>model = ''gpt-4o-mini'',
              messages = [\<lparr>role = ''user'',
                           content = ''Write a haiku about artificial intelligence.''\<rparr>]\<rparr>)
           (create lib client
              \<lparr>model = ''gpt-4o-mini'',
               messages = [\<lparr>role = ''user'',
                            content = ''Write a haiku about artificial intelligence.''\<rparr>]\<rparr>)]
    \<and> response (main lib e)
      = (case create lib client
              \<lparr>model = ''gpt-4o-mini'',
               messages = [\<lparr>role = ''user'',
                            content = ''Write a haiku about artificial intelligence.''\<rparr>]\<rparr>
         of Inl x \<Rightarrow> None | Inr r \<Rightarrow> Some r)"
proof -
  have payload: "\<lparr>model = ''gpt-4o-mini'',
      messages = [\<lparr>role = ''user'',
                   content = ''Write a haiku about artificial intelligence.''\<rparr>]\<rparr> = request_payload"
    by (simp add: request_payload_def)
  show ?thesis
    unfolding payload
  proof (cases "create lib client request_payload")
    case (Inl x)
    then show "requests_of (calls (main lib e)) = [request_payload]
      \<and> request_events (main lib e)
        = [event_of (Request request_payload) (create lib client request_payload)]
      \<and> response (main lib e)
        = (case create lib client request_payload of Inl x \<Rightarrow> None | Inr r \<Rightarrow> Some r)"
      using assms
      by (cases "exit lib mgr (Some x)")
         (auto simp: script_defs request_events_def event_of_def)
  next
    case (Inr r)
    then show "requests_of (calls (main lib e)) = [request_payload]
      \<and> request_events (main lib e)
        = [event_of (Request request_payload) (create lib client request_payload)]
      \<and> response (main lib e)
        = (case create lib client request_payload of Inl x \<Rightarrow> None | Inr r \<Rightarrow> Some r)"
      using assms
      by (cases "exit lib mgr None"; cases "str lib r")
         (auto simp: script_defs request_events_def event_of_def)
  qed
qed

theorem exactly_one_request_witness:
  "load_dotenv (strict_library haiku) Map.empty = Inr Map.empty
   \<and> OpenAI (strict_library haiku) Map.empty = Inr ''client''
   \<and> enter (strict_library haiku) ''client'' = Inr ''client''
   \<and> requests_of (calls (main (strict_library haiku) Map.empty))
       = [\<lparr>model = ''gpt-4o-mini'',
           messages = [\<lparr>role = ''user'',
                        content = ''Write a haiku about artificial intelligence.''\<rparr>]\<rparr>]
   \<and> request_events (main (strict_library haiku) Map.empty) = [Ok (Request request_payload)]
   \<and> response (main (strict_library haiku) Map.empty) = Some haiku"
proof -
  let ?lib = "strict_library haiku"
  have h1: "load_dotenv ?lib Map.empty = Inr Map.empty"
    and h2: "OpenAI ?lib Map.empty = Inr ''client''"
    and h3: "enter ?lib ''client'' = Inr ''client''"
    by (simp_all add: strict_library_def mock_library_def)
  have c: "create ?lib c
      \<lparr>model = ''gpt-4o-mini'',
       messages = [\<lparr>role = ''user'',
                    content = ''Write a haiku about artificial intelligence.''\<rparr>]\<rparr> = Inr haiku" for c
    by (simp add: strict_library_def)
  show ?thesis
    using h1 h2 h3 exactly_one_request [OF h1 h2 h3]
    by (simp add: c event_of_def request_payload_def)
qed

text \<open>
  C6 as stated speaks of every run. A run in which the constructor raises never reaches
  the request: it issues none.
\<close>

theorem no_request_counterexample:
  "requests_of (calls (main (mock_library (Inl AuthenticationError) (Inr haiku)) Map.empty)) = []
   \<and> length (requests_of (calls (main (mock_library (Inl AuthenticationError) (Inr haiku)) Map.empty))) \<noteq> 1"
  by (simp add: script_defs mock_library_def)



text \<open>
  C8. Spec-modelled loader. The loader is the first call of every run and it does not
  raise, so the run goes on to construct the client. When there is no configuration file
  the environment table is left as it was; when there is one, the table is the merge of
  its entries into the old table.
\<close>

theorem loader_runs_first:
  assumes "load_dotenv lib = spec_load_dotenv merge file"
  shows "prefix [Ok LoadDotenv] (trace (main lib e))
    \<and> prefix [LoadDotenv, Construct] (calls (main lib e))
    \<and> (file = None \<longrightarrow> environ (main lib e) = e)
    \<and> (\<forall>entries. file = Some entries \<longrightarrow> environ (main lib e) = merge e entries)"
proof -
  have loaded: "load_dotenv lib e = Inr (case file of None \<Rightarrow> e | Some entries \<Rightarrow> merge e entries)"
    by (simp add: assms spec_load_dotenv_def split: option.splits)
  show ?thesis
    by (cases "file") (auto simp: loaded script_defs split: sum.splits option.splits)
qed

theorem loader_runs_first_witness:
  "load_dotenv ((mock_library (Inr ''client'') (Inr haiku))
       \<lparr>load_dotenv := spec_load_dotenv (\<lambda>e entries. e ++ map_of entries) None\<rparr>)
     = spec_load_dotenv (\<lambda>e entries. e ++ map_of entries) None
   \<and> environ (main ((mock_library (Inr ''client'') (Inr haiku))
       \<lparr>load_dotenv := spec_load_dotenv (\<lambda>e entries. e ++ map_of entries) None\<rparr>)
       [''HOME'' \<mapsto> ''/root'']) = [''HOME'' \<mapsto> ''/root'']
   \<and> prefix [LoadDotenv, Construct] (calls (main ((mock_library (Inr ''client'') (Inr haiku))
       \<lparr>load_dotenv := spec_load_dotenv (\<lambda>e entries. e ++ map_of entries) None\<rparr>)
       [''HOME'' \<mapsto> ''/root'']))"
proof -
  let ?lib = "(mock_library (Inr ''client'') (Inr haiku))
       \<lparr>load_dotenv := spec_load_dotenv (\<lambda>e entries. e ++ map_of entries) None\<rparr>"
  have h: "load_dotenv ?lib = spec_load_dotenv (\<lambda>e entries. e ++ map_of entries) None"
    by simp
  show ?thesis
    using h loader_runs_first [OF h, of "[''HOME'' \<mapsto> ''/root'']"] by simp
qed

text \<open>
  C9. The \<^verbatim>\<open>print\<close> statement leaves the variable \<^verbatim>\<open>response\<close> and the environment
  table as they were and only appends to standard output. When the conversion to text
  succeeds, the state after it differs from the state before in the text written (and in
  the log of calls) and in nothing else.
\<close>

theorem rendering_preserves_response:
  "response (print_stmt lib s) = response s
   \<and> environ (print_stmt lib s) = environ s
   \<and> prefix (stdout s) (stdout (print_stmt lib s))
   \<and> (\<forall>r text. response s = Some r \<longrightarrow> str lib r = Inr text \<longrightarrow>
        print_stmt lib s = s\<lparr>stdout := stdout s @ text @ newline, trace := trace s @ [Ok Print]\<rparr>)"
  by (auto simp: script_defs split: sum.splits option.splits)

theorem rendering_preserves_response_witness:
  "response ((start Map.empty)\<lparr>response := Some haiku\<rparr>) = Some haiku
   \<and> str (mock_library (Inr ''client'') (Inr haiku)) haiku = Inr haiku
   \<and> print_stmt (mock_library (Inr ''client'') (Inr haiku)) ((start Map.empty)\<lparr>response := Some haiku\<rparr>)
       = (start Map.empty)\<lparr>response := Some haiku, stdout := haiku @ newline, trace := [Ok Print]\<rparr>
   \<and> response (print_stmt (mock_library (Inr ''client'') (Inr haiku))
       ((start Map.empty)\<lparr>response := Some haiku\<rparr>)) = Some haiku"
proof -
  let ?lib = "mock_library (Inr ''client'') (Inr haiku)"
  let ?s = "(start Map.empty)\<lparr>response := Some haiku\<rparr> :: string state"
  have h1: "response ?s = Some haiku" by simp
  have h2: "str ?lib haiku = Inr haiku" by (simp add: mock_library_def)
  show ?thesis
    using h1 h2 rendering_preserves_response [of ?lib ?s]
    by (simp add: start_def)
qed

end
